theory Spec2Isabelle
  imports Main "HOL-Library.Word"
begin

unbundle bit_operations_syntax

section \<open>The local passcode settings screens (settings/settings_local_passcode.cpp)\<close>

text \<open>
  The file builds two settings sections: \<open>LocalPasscodeEnter\<close> (in its three modes
  Create, Check and Change) and \<open>LocalPasscodeManage\<close>. The logic of the file lives in
  callbacks: the helper \<open>SetPasscode\<close>, the auto-close timer callback, the click
  handler of the main button with the \<open>submit\<close> and focus handlers around it, the
  computation of the auto-lock label, the click handlers of the manage screen and the
  confirmation callback of the disable button. Each is embedded below as a function that
  takes the state outside the file and returns the new state together with the list of
  effects (widget calls, events fired, calls into collaborators) in the order the source
  performs them. What the file does besides is layout and painting (the geometry lambdas
  and the \<open>Divider\<close> widget), which works on widgets only and has no embedding here.
\<close>

subsection \<open>Strings and time\<close>

text \<open>
  A \<open>QString\<close> is a sequence of UTF-16 code units, a \<open>QByteArray\<close> a sequence of
  bytes. \<open>crl::time\<close> is a signed 64-bit count of milliseconds: a 64-bit word, read as
  a signed number by \<open>sint\<close>, whose subtraction wraps around.
\<close>

type_synonym QString = "16 word list"
type_synonym QByteArray = "8 word list"
type_synonym time = "64 word"

definition isEmpty :: "QString \<Rightarrow> bool" where
  "isEmpty s = (s = [])"

text \<open>
  \<open>QString::toUtf8\<close> is Qt's transcoding of UTF-16 to UTF-8: one to three bytes for a
  code unit outside the surrogate range, four bytes for a surrogate pair, and the byte of
  \<open>?\<close> for a surrogate that has no partner. The properties of the handlers rely on
  one fact about it only, that the encoding of the empty string is empty; the runs on
  concrete inputs also encode the ASCII letters \<open>a\<close> and \<open>b\<close>.
\<close>

definition isSurrogate :: "16 word \<Rightarrow> bool" where
  "isSurrogate u = (u AND 0xF800 = 0xD800)"

definition isHighSurrogate :: "16 word \<Rightarrow> bool" where
  "isHighSurrogate u = (u AND 0xFC00 = 0xD800)"

definition isLowSurrogate :: "16 word \<Rightarrow> bool" where
  "isLowSurrogate u = (u AND 0xFC00 = 0xDC00)"

definition utf8_unit :: "16 word \<Rightarrow> QByteArray" where
  "utf8_unit u =
     (if u < 0x80 then [ucast u]
      else if u < 0x800 then
        [0xC0 OR ucast (drop_bit 6 u), 0x80 OR (ucast u AND 0x3F)]
      else if isSurrogate u then [0x3F]
      else
        [0xE0 OR ucast (drop_bit 12 u),
         0x80 OR (ucast (drop_bit 6 u) AND 0x3F),
         0x80 OR (ucast u AND 0x3F)])"

definition utf8_pair :: "16 word \<Rightarrow> 16 word \<Rightarrow> QByteArray" where
  "utf8_pair hi lo =
     (let c = (0x10000 :: 32 word) + push_bit 10 (ucast (hi AND 0x3FF)) + ucast (lo AND 0x3FF)
      in [0xF0 OR ucast (drop_bit 18 c),
          0x80 OR (ucast (drop_bit 12 c) AND 0x3F),
          0x80 OR (ucast (drop_bit 6 c) AND 0x3F),
          0x80 OR (ucast c AND 0x3F)])"

fun toUtf8 :: "QString \<Rightarrow> QByteArray" where
  "toUtf8 [] = []"
| "toUtf8 [u] = utf8_unit u"
| "toUtf8 (u # l # us) =
     (if isHighSurrogate u \<and> isLowSurrogate l then utf8_pair u l @ toUtf8 us
      else utf8_unit u @ toUtf8 (l # us))"

subsection \<open>The state outside the file\<close>

text \<open>
  The file owns no state of its own beyond its widgets. It works on
  \<^item> the application and the session's domain (\<open>Core::App()\<close>,
    \<open>_controller->session().domain()\<close>), whose state is the type parameter \<open>'x\<close>;
  \<^item> the two global settings variables \<open>PasscodeBadTries\<close> and \<open>PasscodeLastTry\<close>,
    each with a getter \<open>c<Name>\<close> and a setter \<open>cSet<Name>\<close>, which are the record
    fields \<open>passcodeBadTries\<close> and \<open>passcodeLastTry\<close>. The count is a signed 32-bit
    integer: a 32-bit word, read by \<open>sint\<close>, whose \<open>+ 1\<close> wraps around at
    \<open>2147483647\<close>. The timestamp is a \<open>crl::time\<close>.
\<close>

record 'x world =
  app :: 'x
  passcodeBadTries :: "32 word"
  passcodeLastTry :: time

text \<open>
  The collaborators the file calls are defined elsewhere, so they are parameters of the
  model: any functions of these types. A collaborator that changes state changes the
  application state \<open>'x\<close>; it does not touch the two settings variables.
\<close>

record 'x ext =
  checkPasscode :: "'x \<Rightarrow> QByteArray \<Rightarrow> bool"
  setPasscode :: "QByteArray \<Rightarrow> 'x \<Rightarrow> 'x"
  localPasscodeChanged :: "'x \<Rightarrow> 'x"
  lastNonIdleTime :: "'x \<Rightarrow> time"
  autoLock :: "'x \<Rightarrow> int"
  passcodeCanTry :: "'x world \<Rightarrow> time \<Rightarrow> bool"
  lastUserInputTimeSupported :: bool

subsection \<open>Effects\<close>

datatype EnterType = Create | Check | Change

datatype Type =
  LocalPasscodeManage_Id | LocalPasscodeCreate_Id | LocalPasscodeCheck_Id
| LocalPasscodeChange_Id

text \<open>The language keys (\<open>tr::lng_...\<close>) the file uses.\<close>

datatype phrase =
  lng_settings_passcode_title
| lng_passcode_create_title | lng_passcode_check_title | lng_passcode_change_title
| lng_passcode_about1 | lng_passcode_about2 | lng_passcode_about3
| lng_passcode_enter_first | lng_passcode_confirm_new
| lng_language_name
| lng_passcode_create_button | lng_passcode_check_button | lng_passcode_change_button
| lng_passcode_differ | lng_passcode_is_same | lng_flood_error | lng_passcode_wrong
| lng_passcode_change
| lng_passcode_autolock_hours_minutes | lng_minutes | lng_hours
| lng_passcode_autolock_away | lng_passcode_autolock_inactive
| lng_settings_passcode_disable | lng_settings_passcode_disable_sure
| lng_settings_auto_night_disable

text \<open>The two password inputs of \<open>LocalPasscodeEnter\<close>.\<close>

datatype input = newPasscode | reenterPasscode

text \<open>The boxes the manage screen hands to \<open>_controller->show\<close>.\<close>

datatype box = Box_AutoLockBox | Box_ConfirmBox

text \<open>
  Calls that leave the file for application state: the getters and setters of the two
  settings variables, the clock, \<open>passcodeCanTry\<close>, the domain's local storage, the
  application object and its settings, the window controller and the platform query.
\<close>

datatype call =
  Call_cPasscodeBadTries
| Call_cSetPasscodeBadTries "32 word"
| Call_cPasscodeLastTry
| Call_cSetPasscodeLastTry time
| Call_now
| Call_passcodeCanTry
| Call_checkPasscode QByteArray
| Call_setPasscode QByteArray
| Call_localPasscodeChanged
| Call_lastNonIdleTime
| Call_autoLock
| Call_controller_show box
| Call_LastUserInputTimeSupported

datatype event =
  setFocus input
| showError input
| selectAll input
| error_show
| error_hide
| error_setText phrase
| icon_animate_once
| showOther_fire Type
| showBack_fire
| box_close
| autolockLabel_text "phrase \<times> int list"
| timer_callEach time
| Ext call

subsection \<open>SetPasscode and the auto-close timer\<close>

definition kTimerCheck :: time where
  "kTimerCheck = 1000 * 60"

definition kAutoCloseTimeout :: time where
  "kAutoCloseTimeout = 1000 * 60 * 10"

definition SetPasscode :: "'x ext \<Rightarrow> QString \<Rightarrow> 'x world \<Rightarrow> 'x world \<times> event list" where
  "SetPasscode env pass w =
     (let w1 = w\<lparr>passcodeBadTries := 0\<rparr>;
          w2 = w1\<lparr>app := setPasscode env (toUtf8 pass) (app w1)\<rparr>;
          w3 = w2\<lparr>app := localPasscodeChanged env (app w2)\<rparr>
      in (w3,
          [Ext (Call_cSetPasscodeBadTries 0),
           Ext (Call_setPasscode (toUtf8 pass)),
           Ext Call_localPasscodeChanged]))"

text \<open>
  The lambda given to \<open>base::Timer\<close>: \<open>callback\<close> is the list of effects of the
  \<open>Fn<void()>\<close> handed to \<open>SetupAutoCloseTimer\<close>. Both uses in the file pass
  \<open>[=] { _showBack.fire({}); }\<close>.
\<close>

definition timerCallback :: "'x ext \<Rightarrow> event list \<Rightarrow> time \<Rightarrow> 'x \<Rightarrow> event list" where
  "timerCallback env callback now a =
     (let idle = now - lastNonIdleTime env a
      in [Ext Call_now, Ext Call_lastNonIdleTime]
         @ (if sint idle \<ge> sint kAutoCloseTimeout then callback else []))"

text \<open>
  \<open>SetupAutoCloseTimer\<close> creates the timer with that lambda and starts it with
  \<open>callEach(kTimerCheck)\<close>: the record keeps the period given to \<open>callEach\<close> and the
  lambda run at every firing.
\<close>

record 'x Timer =
  callEach :: time
  onFire :: "time \<Rightarrow> 'x \<Rightarrow> event list"

definition SetupAutoCloseTimer :: "'x ext \<Rightarrow> event list \<Rightarrow> 'x Timer" where
  "SetupAutoCloseTimer env callback =
     \<lparr>callEach = kTimerCheck, onFire = timerCallback env callback\<rparr>"

subsection \<open>The click handler of LocalPasscodeEnter\<close>

text \<open>
  \<open>newField\<close> and \<open>reenterField\<close> are the texts of the two password inputs when the
  button is clicked. In Check mode the second input does not exist
  (\<open>reenterPasscode\<close> is \<open>nullptr\<close>) and \<open>reenterText\<close> is the empty \<open>QString()\<close>.
\<close>

definition clicked ::
  "'x ext \<Rightarrow> EnterType \<Rightarrow> QString \<Rightarrow> QString \<Rightarrow> time \<Rightarrow> 'x world \<Rightarrow> 'x world \<times> event list" where
  "clicked env enterType newField reenterField now w =
     (let isCreate = (enterType = Create);
          isCheck = (enterType = Check);
          isChange = (enterType = Change);
          newText = newField;
          reenterText = (if isCheck then [] else reenterField)
      in
      if isCreate \<or> isChange then
        (if isEmpty newText then
           (w, [setFocus newPasscode, showError newPasscode])
         else if isEmpty reenterText then
           (w, [setFocus reenterPasscode, showError reenterPasscode])
         else if newText \<noteq> reenterText then
           (w, [setFocus reenterPasscode, showError reenterPasscode,
                selectAll reenterPasscode, error_show, error_setText lng_passcode_differ])
         else if isChange \<and> checkPasscode env (app w) (toUtf8 newText) then
           (w, [Ext (Call_checkPasscode (toUtf8 newText)),
                setFocus newPasscode, showError newPasscode, selectAll newPasscode,
                error_show, error_setText lng_passcode_is_same])
         else
           (let (w', evs) = SetPasscode env newText w
            in (w',
                (if isChange then [Ext (Call_checkPasscode (toUtf8 newText))] else [])
                @ evs
                @ (if isCreate then [showOther_fire LocalPasscodeManage_Id]
                   else if isChange then [showBack_fire]
                   else []))))
      else if isCheck then
        (if \<not> passcodeCanTry env w now then
           (w, [Ext Call_passcodeCanTry,
                setFocus newPasscode, showError newPasscode,
                error_show, error_setText lng_flood_error])
         else if checkPasscode env (app w) (toUtf8 newText) then
           (w\<lparr>passcodeBadTries := 0\<rparr>,
            [Ext Call_passcodeCanTry, Ext (Call_checkPasscode (toUtf8 newText)),
             Ext (Call_cSetPasscodeBadTries 0),
             showOther_fire LocalPasscodeManage_Id])
         else
           (w\<lparr>passcodeBadTries := passcodeBadTries w + 1, passcodeLastTry := now\<rparr>,
            [Ext Call_passcodeCanTry, Ext (Call_checkPasscode (toUtf8 newText)),
             Ext Call_cPasscodeBadTries,
             Ext (Call_cSetPasscodeBadTries (passcodeBadTries w + 1)),
             Ext Call_now, Ext (Call_cSetPasscodeLastTry now),
             selectAll newPasscode, setFocus newPasscode, showError newPasscode,
             error_show, error_setText lng_passcode_wrong]))
      else (w, []))"







subsection \<open>LocalPasscodeManage: the auto-lock label and the disable button\<close>

text \<open>C++ integer division truncates towards zero.\<close>

definition cpp_div :: "int \<Rightarrow> int \<Rightarrow> int" where
  "cpp_div a b = sgn a * sgn b * (\<bar>a\<bar> div \<bar>b\<bar>)"

definition autolock_hours :: "int \<Rightarrow> int" where
  "autolock_hours autolock = cpp_div autolock 3600"

definition autolock_minutes :: "int \<Rightarrow> int" where
  "autolock_minutes autolock =
     cpp_div (autolock - (autolock_hours autolock * 3600)) 60"

text \<open>
  The label is a language key with its numeric arguments: hours and minutes for
  \<open>lng_passcode_autolock_hours_minutes\<close>, the count for \<open>lng_minutes\<close> and \<open>lng_hours\<close>.
\<close>

definition autolockText :: "int \<Rightarrow> phrase \<times> int list" where
  "autolockText autolock =
     (let hours = autolock_hours autolock;
          minutes = autolock_minutes autolock
      in if hours \<noteq> 0 \<and> minutes \<noteq> 0 then
           (lng_passcode_autolock_hours_minutes, [hours, minutes])
         else if minutes \<noteq> 0 then (lng_minutes, [minutes])
         else (lng_hours, [hours]))"


text \<open>
  The click handler of the disable button shows a confirmation box built by
  \<open>Ui::MakeConfirmBox\<close> from a text, a \<open>confirmed\<close> callback and the text of the
  confirming button. The box runs \<open>confirmed\<close> when the user confirms; the \<open>close\<close>
  it passes in is the effect \<open>box_close\<close>.
\<close>

record 'x ConfirmBoxArgs =
  text_key :: phrase
  confirmed :: "'x world \<Rightarrow> 'x world \<times> event list"
  confirmText :: phrase

definition disableConfirmed :: "'x ext \<Rightarrow> 'x world \<Rightarrow> 'x world \<times> event list" where
  "disableConfirmed env w =
     (let (w', evs) = SetPasscode env [] w
      in (w', evs @ [box_close, showBack_fire]))"

definition disableClicked :: "'x ext \<Rightarrow> 'x ConfirmBoxArgs" where
  "disableClicked env =
     \<lparr>text_key = lng_settings_passcode_disable_sure,
      confirmed = disableConfirmed env,
      confirmText = lng_settings_auto_night_disable\<rparr>"





text \<open>
  \<open>setupContent\<close> of \<open>LocalPasscodeManage\<close> starts the auto-close timer, picks the
  title of the auto-lock button by \<open>base::Platform::LastUserInputTimeSupported\<close> and
  computes the label a first time.
\<close>

definition autolockTitle :: "'x ext \<Rightarrow> phrase" where
  "autolockTitle env =
     (if lastUserInputTimeSupported env then lng_passcode_autolock_away
      else lng_passcode_autolock_inactive)"


definition removeFromStack :: "Type list" where
  "removeFromStack =
     [LocalPasscodeManage_Id, LocalPasscodeCreate_Id, LocalPasscodeCheck_Id,
      LocalPasscodeChange_Id]"

subsection \<open>The entry points of the file\<close>



subsection \<open>Reading a list of effects\<close>


fun setPasscodeCalls :: "event list \<Rightarrow> QByteArray list" where
  "setPasscodeCalls [] = []"
| "setPasscodeCalls (Ext (Call_setPasscode p) # es) = p # setPasscodeCalls es"
| "setPasscodeCalls (_ # es) = setPasscodeCalls es"

fun checkPasscodeCalls :: "event list \<Rightarrow> QByteArray list" where
  "checkPasscodeCalls [] = []"
| "checkPasscodeCalls (Ext (Call_checkPasscode p) # es) = p # checkPasscodeCalls es"
| "checkPasscodeCalls (_ # es) = checkPasscodeCalls es"

fun errorTexts :: "event list \<Rightarrow> phrase list" where
  "errorTexts [] = []"
| "errorTexts (error_setText k # es) = k # errorTexts es"
| "errorTexts (_ # es) = errorTexts es"

fun errorFields :: "event list \<Rightarrow> input list" where
  "errorFields [] = []"
| "errorFields (showError i # es) = i # errorFields es"
| "errorFields (_ # es) = errorFields es"

subsection \<open>A concrete set of collaborators\<close>

text \<open>
  An instance of the parameters on which the handlers can be evaluated: the application
  keeps the passcode bytes, the time of the last input and the auto-lock setting;
  a passcode checks when it is the stored one; a try is allowed while fewer than three
  bad tries are counted or five seconds have passed since the last one.
\<close>

record plain_app =
  stored :: QByteArray
  lastInput :: time
  autoLockSeconds :: int

definition plainExt :: "plain_app ext" where
  "plainExt =
     \<lparr>checkPasscode = (\<lambda>a p. stored a = p),
      setPasscode = (\<lambda>p a. a\<lparr>stored := p\<rparr>),
      localPasscodeChanged = (\<lambda>a. a),
      lastNonIdleTime = lastInput,
      autoLock = autoLockSeconds,
      passcodeCanTry =
        (\<lambda>w now. sint (passcodeBadTries w) < 3 \<or> sint (now - passcodeLastTry w) \<ge> 5000),
      lastUserInputTimeSupported = True\<rparr>"

definition plainWorld :: "QByteArray \<Rightarrow> 32 word \<Rightarrow> time \<Rightarrow> plain_app world" where
  "plainWorld p tries lastTry =
     \<lparr>app = \<lparr>stored = p, lastInput = 0, autoLockSeconds = 3600\<rparr>,
      passcodeBadTries = tries, passcodeLastTry = lastTry\<rparr>"

section \<open>Properties\<close>

subsection \<open>The handlers, mode by mode\<close>

text \<open>
  \<open>SetPasscode\<close> and the click handler, with the \<open>let\<close>s and the mode tests
  evaluated: one equation for each mode of \<open>LocalPasscodeEnter\<close>.
\<close>

lemma SetPasscode_eq:
  "SetPasscode env pass w =
     (w\<lparr>passcodeBadTries := 0,
        app := localPasscodeChanged env (setPasscode env (toUtf8 pass) (app w))\<rparr>,
      [Ext (Call_cSetPasscodeBadTries 0), Ext (Call_setPasscode (toUtf8 pass)),
       Ext Call_localPasscodeChanged])"
  by (simp add: SetPasscode_def Let_def)

lemma clicked_Check:
  "clicked env Check newField reenterField now w =
     (if \<not> passcodeCanTry env w now then
        (w, [Ext Call_passcodeCanTry,
             setFocus newPasscode, showError newPasscode,
             error_show, error_setText lng_flood_error])
      else if checkPasscode env (app w) (toUtf8 newField) then
        (w\<lparr>passcodeBadTries := 0\<rparr>,
         [Ext Call_passcodeCanTry, Ext (Call_checkPasscode (toUtf8 newField)),
          Ext (Call_cSetPasscodeBadTries 0),
          showOther_fire LocalPasscodeManage_Id])
      else
        (w\<lparr>passcodeBadTries := passcodeBadTries w + 1, passcodeLastTry := now\<rparr>,
         [Ext Call_passcodeCanTry, Ext (Call_checkPasscode (toUtf8 newField)),
          Ext Call_cPasscodeBadTries,
          Ext (Call_cSetPasscodeBadTries (passcodeBadTries w + 1)),
          Ext Call_now, Ext (Call_cSetPasscodeLastTry now),
          selectAll newPasscode, setFocus newPasscode, showError newPasscode,
          error_show, error_setText lng_passcode_wrong]))"
  by (simp add: clicked_def)

lemma clicked_Create:
  "clicked env Create newField reenterField now w =
     (if newField = [] then (w, [setFocus newPasscode, showError newPasscode])
      else if reenterField = [] then
        (w, [setFocus reenterPasscode, showError reenterPasscode])
      else if newField \<noteq> reenterField then
        (w, [setFocus reenterPasscode, showError reenterPasscode,
             selectAll reenterPasscode, error_show, error_setText lng_passcode_differ])
      else
        (fst (SetPasscode env newField w),
         snd (SetPasscode env newField w) @ [showOther_fire LocalPasscodeManage_Id]))"
  by (simp add: clicked_def isEmpty_def SetPasscode_eq)

lemma clicked_Change:
  "clicked env Change newField reenterField now w =
     (if newField = [] then (w, [setFocus newPasscode, showError newPasscode])
      else if reenterField = [] then
        (w, [setFocus reenterPasscode, showError reenterPasscode])
      else if newField \<noteq> reenterField then
        (w, [setFocus reenterPasscode, showError reenterPasscode,
             selectAll reenterPasscode, error_show, error_setText lng_passcode_differ])
      else if checkPasscode env (app w) (toUtf8 newField) then
        (w, [Ext (Call_checkPasscode (toUtf8 newField)),
             setFocus newPasscode, showError newPasscode, selectAll newPasscode,
             error_show, error_setText lng_passcode_is_same])
      else
        (fst (SetPasscode env newField w),
         Ext (Call_checkPasscode (toUtf8 newField))
         # snd (SetPasscode env newField w) @ [showBack_fire]))"
  by (simp add: clicked_def isEmpty_def SetPasscode_eq)

lemma checkPasscode_called_iff_can_try:
  "checkPasscodeCalls (snd (clicked env Check newField reenterField now w)) =
     (if passcodeCanTry env w now then [toUtf8 newField] else [])"
  by (simp add: clicked_Check)

subsection \<open>Runs on the concrete collaborators\<close>

lemma plainWorld_sel:
  "app (plainWorld p n t) = \<lparr>stored = p, lastInput = 0, autoLockSeconds = 3600\<rparr>"
  "passcodeBadTries (plainWorld p n t) = n"
  "passcodeLastTry (plainWorld p n t) = t"
  by (simp_all add: plainWorld_def)

lemma plainWorld_upd:
  "(plainWorld p n t)\<lparr>passcodeBadTries := n'\<rparr> = plainWorld p n' t"
  "(plainWorld p n t)\<lparr>passcodeLastTry := t'\<rparr> = plainWorld p n t'"
  "(plainWorld p n t)\<lparr>app := \<lparr>stored = p', lastInput = 0, autoLockSeconds = 3600\<rparr>\<rparr>
     = plainWorld p' n t"
  by (simp_all add: plainWorld_def)

lemma plainExt_sel:
  "checkPasscode plainExt a p = (stored a = p)"
  "setPasscode plainExt p a = a\<lparr>stored := p\<rparr>"
  "localPasscodeChanged plainExt a = a"
  "lastNonIdleTime plainExt a = lastInput a"
  "autoLock plainExt a = autoLockSeconds a"
  "passcodeCanTry plainExt w now
     = (sint (passcodeBadTries w) < 3 \<or> sint (now - passcodeLastTry w) \<ge> 5000)"
  "lastUserInputTimeSupported plainExt = True"
  by (simp_all add: plainExt_def)

lemma toUtf8_ascii: "toUtf8 [0x61] = [0x61]" "toUtf8 [0x62] = [0x62]"
  by (simp_all add: utf8_unit_def)

lemmas plain_simps = plainWorld_sel plainWorld_upd plainExt_sel toUtf8_ascii

lemma run_change_ok:
  "clicked plainExt Change [0x61] [0x61] 1000 (plainWorld [0x62] 2 7) =
       (plainWorld [0x61] 0 7,
        [Ext (Call_checkPasscode [0x61]), Ext (Call_cSetPasscodeBadTries 0),
         Ext (Call_setPasscode [0x61]), Ext Call_localPasscodeChanged, showBack_fire])"
  by (simp add: clicked_Change SetPasscode_eq plain_simps del: toUtf8.simps)

lemma run_change_same:
  "clicked plainExt Change [0x61] [0x61] 1000 (plainWorld [0x61] 2 7) =
     (plainWorld [0x61] 2 7,
      [Ext (Call_checkPasscode [0x61]), setFocus newPasscode, showError newPasscode,
       selectAll newPasscode, error_show, error_setText lng_passcode_is_same])"
  by (simp add: clicked_Change plain_simps del: toUtf8.simps)


lemma run_check_ok:
  "clicked plainExt Check [0x61] [] 1000 (plainWorld [0x61] 2 7) =
     (plainWorld [0x61] 0 7,
      [Ext Call_passcodeCanTry, Ext (Call_checkPasscode [0x61]),
       Ext (Call_cSetPasscodeBadTries 0), showOther_fire LocalPasscodeManage_Id])"
  by (simp add: clicked_Check plain_simps del: toUtf8.simps)


lemma run_check_empty:
  "clicked plainExt Check [] [] 1000 (plainWorld [0x61] 2 7) =
     (plainWorld [0x61] 3 1000,
      [Ext Call_passcodeCanTry, Ext (Call_checkPasscode []),
       Ext Call_cPasscodeBadTries, Ext (Call_cSetPasscodeBadTries 3),
       Ext Call_now, Ext (Call_cSetPasscodeLastTry 1000),
       selectAll newPasscode, setFocus newPasscode, showError newPasscode,
       error_show, error_setText lng_passcode_wrong])"
  by (simp add: clicked_Check plain_simps)

lemma run_create_differ:
  "clicked plainExt Create [0x61] [0x62] 1000 (plainWorld [] 0 0) =
     (plainWorld [] 0 0,
      [setFocus reenterPasscode, showError reenterPasscode, selectAll reenterPasscode,
       error_show, error_setText lng_passcode_differ])"
  by (simp add: clicked_Create)

lemma run_create_empty:
  "clicked plainExt Create [] [0x61] 1000 (plainWorld [] 0 0) =
     (plainWorld [] 0 0, [setFocus newPasscode, showError newPasscode])"
  by (simp add: clicked_Create)


subsection \<open>Signed readings of the counters\<close>

lemma sint_succ_32:
  fixes c :: "32 word"
  assumes "sint c < 2147483647"
  shows "sint (c + 1) = sint c + 1"
proof -
  have lo: "- (2 ^ 31) \<le> sint c"
    using sint_ge [of c] by simp
  have "sint (c + 1) = signed_take_bit 31 (sint c + 1)"
    by (simp add: sint_word_ariths)
  also have "\<dots> = sint c + 1"
    using lo assms by (intro signed_take_bit_int_eq_self) simp_all
  finally show ?thesis .
qed

lemma sint_diff_64:
  fixes a b :: "64 word"
  assumes "- (2 ^ 63) \<le> sint a - sint b" and "sint a - sint b < 2 ^ 63"
  shows "sint (a - b) = sint a - sint b"
proof -
  have "sint (a - b) = signed_take_bit 63 (sint a - sint b)"
    by (simp add: sint_word_ariths)
  also have "\<dots> = sint a - sint b"
    using assms by (intro signed_take_bit_int_eq_self) simp_all
  finally show ?thesis .
qed

lemma sint_timer_constants:
  "sint kTimerCheck = 60 * 1000" "sint kAutoCloseTimeout = 10 * 60 * 1000"
  by (simp_all add: kTimerCheck_def kAutoCloseTimeout_def)

subsection \<open>Truncating division on the auto-lock value\<close>

lemma cpp_div_nonneg: "0 \<le> a \<Longrightarrow> 0 < b \<Longrightarrow> cpp_div a b = a div b"
  by (cases "a = 0") (simp_all add: cpp_div_def)

lemma cpp_div_small: "\<bar>a\<bar> < b \<Longrightarrow> cpp_div a b = 0"
  by (simp add: cpp_div_def)

lemma autolock_nonneg:
  assumes "0 \<le> a"
  shows "autolock_hours a = a div 3600" and "autolock_minutes a = (a mod 3600) div 60"
proof -
  show h: "autolock_hours a = a div 3600"
    using assms by (simp add: autolock_hours_def cpp_div_nonneg)
  have "a - a div 3600 * 3600 = a mod 3600"
    by (simp add: minus_div_mult_eq_mod)
  moreover have "0 \<le> a mod 3600" by simp
  ultimately show "autolock_minutes a = (a mod 3600) div 60"
    by (simp add: autolock_minutes_def h cpp_div_nonneg)
qed

lemma autolock_small:
  assumes "- 60 < a" and "a < 60"
  shows "autolock_hours a = 0" and "autolock_minutes a = 0"
proof -
  from assms have "\<bar>a\<bar> < 3600" by simp
  then show h: "autolock_hours a = 0"
    by (simp add: autolock_hours_def cpp_div_small)
  from assms have "\<bar>a\<bar> < 60" by simp
  then show "autolock_minutes a = 0"
    by (simp add: autolock_minutes_def h cpp_div_small)
qed

lemma autolock_30: "autolock_hours 30 = 0" "autolock_minutes 30 = 0"
  by (simp_all add: autolock_hours_def autolock_minutes_def cpp_div_def)

subsection \<open>The external calls of the entry points\<close>





section \<open>The claims\<close>

subsection \<open>C1\<close>

text \<open>
  C1. In Create and Change mode the click handler calls \<open>SetPasscode\<close> exactly when
  validation passes. When both fields are non-empty and equal and, in Change mode,
  \<open>checkPasscode\<close> does not accept the new text, the handler is \<open>SetPasscode\<close> on the
  entered text (after the \<open>checkPasscode\<close> call in Change mode) followed by the
  navigation, and the external setter is called once, with the UTF-8 of the entered text.
  In every other case (first field empty, confirmation empty, texts different, or the
  new text accepted as the current passcode in Change mode) the setter is not called and
  the state is unchanged.
\<close>

theorem clicked_sets_passcode_iff_valid:
  assumes "enterType = Create \<or> enterType = Change"
  shows "if newField \<noteq> [] \<and> reenterField \<noteq> [] \<and> newField = reenterField
            \<and> \<not> (enterType = Change \<and> checkPasscode env (app w) (toUtf8 newField))
         then clicked env enterType newField reenterField now w =
                (fst (SetPasscode env newField w),
                 (if enterType = Change then [Ext (Call_checkPasscode (toUtf8 newField))]
                  else [])
                 @ snd (SetPasscode env newField w)
                 @ [if enterType = Create then showOther_fire LocalPasscodeManage_Id
                    else showBack_fire])
              \<and> setPasscodeCalls (snd (clicked env enterType newField reenterField now w))
                  = [toUtf8 newField]
         else fst (clicked env enterType newField reenterField now w) = w
              \<and> setPasscodeCalls (snd (clicked env enterType newField reenterField now w))
                  = []"
  using assms
proof
  assume "enterType = Create"
  then show ?thesis by (simp add: clicked_Create SetPasscode_eq)
next
  assume "enterType = Change"
  then show ?thesis by (simp add: clicked_Change SetPasscode_eq)
qed

theorem clicked_sets_passcode_iff_valid_witness:
  "(Change = Create \<or> Change = Change)
   \<and> clicked plainExt Change [0x61] [0x61] 1000 (plainWorld [0x62] 2 7) =
       (plainWorld [0x61] 0 7,
        [Ext (Call_checkPasscode [0x61]), Ext (Call_cSetPasscodeBadTries 0),
         Ext (Call_setPasscode [0x61]), Ext Call_localPasscodeChanged, showBack_fire])
   \<and> setPasscodeCalls (snd (clicked plainExt Change [0x61] [0x61] 1000 (plainWorld [0x62] 2 7)))
       = [[0x61]]
   \<and> fst (clicked plainExt Create [0x61] [0x62] 1000 (plainWorld [] 0 0)) = plainWorld [] 0 0
   \<and> setPasscodeCalls (snd (clicked plainExt Create [0x61] [0x62] 1000 (plainWorld [] 0 0)))
       = []"
  using
    clicked_sets_passcode_iff_valid
      [where enterType = Change and env = plainExt and newField = "[0x61]"
         and reenterField = "[0x61]" and w = "plainWorld [0x62] 2 7" and now = 1000]
    clicked_sets_passcode_iff_valid
      [where enterType = Create and env = plainExt and newField = "[0x61]"
         and reenterField = "[0x62]" and w = "plainWorld [] 0 0" and now = 1000]
  by (simp add: SetPasscode_eq plain_simps del: toUtf8.simps)

subsection \<open>C2\<close>

text \<open>
  C2, as amended. The inline error label gets a text in exactly four situations of the
  click handler: mismatched confirmation (\<open>lng_passcode_differ\<close>), a new passcode that
  is the current one in Change mode (\<open>lng_passcode_is_same\<close>), a rate-limited try
  (\<open>lng_flood_error\<close>) and a wrong passcode (\<open>lng_passcode_wrong\<close>); the label is
  shown exactly when it gets a text. An empty field in Create or Change mode only focuses
  the empty input and puts it into its error state: the label is neither shown nor set.
\<close>

theorem clicked_error_labels:
  "errorTexts (snd (clicked env enterType newField reenterField now w)) =
     (if enterType = Check then
        (if \<not> passcodeCanTry env w now then [lng_flood_error]
         else if checkPasscode env (app w) (toUtf8 newField) then []
         else [lng_passcode_wrong])
      else if newField = [] \<or> reenterField = [] then []
      else if newField \<noteq> reenterField then [lng_passcode_differ]
      else if enterType = Change \<and> checkPasscode env (app w) (toUtf8 newField)
        then [lng_passcode_is_same]
      else [])
   \<and> (error_show \<in> set (snd (clicked env enterType newField reenterField now w))
        \<longleftrightarrow> errorTexts (snd (clicked env enterType newField reenterField now w)) \<noteq> [])
   \<and> (enterType \<noteq> Check \<and> (newField = [] \<or> reenterField = []) \<longrightarrow>
        snd (clicked env enterType newField reenterField now w) =
          (if newField = [] then [setFocus newPasscode, showError newPasscode]
           else [setFocus reenterPasscode, showError reenterPasscode]))"
proof (cases enterType)
  case Create
  then show ?thesis by (simp add: clicked_Create SetPasscode_eq)
next
  case Check
  then show ?thesis by (simp add: clicked_Check)
next
  case Change
  then show ?thesis by (simp add: clicked_Change SetPasscode_eq)
qed

theorem clicked_error_labels_witness:
  "errorTexts (snd (clicked plainExt Create [0x61] [0x62] 1000 (plainWorld [] 0 0)))
     = [lng_passcode_differ]
   \<and> errorTexts (snd (clicked plainExt Change [0x61] [0x61] 1000 (plainWorld [0x61] 2 7)))
     = [lng_passcode_is_same]
   \<and> errorTexts (snd (clicked plainExt Check [0x62] [] 1000 (plainWorld [0x61] 3 0)))
     = [lng_flood_error]
   \<and> errorTexts (snd (clicked plainExt Check [0x62] [] 1000 (plainWorld [0x61] 2 7)))
     = [lng_passcode_wrong]
   \<and> Create \<noteq> Check \<and> ([] = ([] :: QString) \<or> [0x61] = ([] :: QString))
   \<and> snd (clicked plainExt Create [] [0x61] 1000 (plainWorld [] 0 0))
     = [setFocus newPasscode, showError newPasscode]"
  using
    clicked_error_labels [of plainExt Create "[0x61]" "[0x62]" 1000 "plainWorld [] 0 0"]
    clicked_error_labels [of plainExt Change "[0x61]" "[0x61]" 1000 "plainWorld [0x61] 2 7"]
    clicked_error_labels [of plainExt Check "[0x62]" "[]" 1000 "plainWorld [0x61] 3 0"]
    clicked_error_labels [of plainExt Check "[0x62]" "[]" 1000 "plainWorld [0x61] 2 7"]
    clicked_error_labels [of plainExt Create "[]" "[0x61]" 1000 "plainWorld [] 0 0"]
  by (simp add: plain_simps del: toUtf8.simps)

text \<open>
  The claim as first stated lists the empty field among the four label errors and leaves
  out the same-passcode error. In Change mode, entering the current passcode twice sets
  the label to \<open>lng_passcode_is_same\<close>; in Create mode, an empty first field produces
  no label effect at all.
\<close>

theorem clicked_error_labels_counterexample:
  "clicked plainExt Change [0x61] [0x61] 1000 (plainWorld [0x61] 2 7) =
     (plainWorld [0x61] 2 7,
      [Ext (Call_checkPasscode [0x61]), setFocus newPasscode, showError newPasscode,
       selectAll newPasscode, error_show, error_setText lng_passcode_is_same])
   \<and> clicked plainExt Create [] [0x61] 1000 (plainWorld [] 0 0) =
     (plainWorld [] 0 0, [setFocus newPasscode, showError newPasscode])"
  by (simp add: run_change_same run_create_empty)

subsection \<open>C3\<close>




subsection \<open>C4\<close>




subsection \<open>C5\<close>

text \<open>
  C5. \<open>SetupAutoCloseTimer\<close> starts a timer with period \<open>kTimerCheck\<close>, which is 60
  seconds in milliseconds. At a firing the timer's callback reads the clock and the last
  non-idle time and then runs the auto-close callback if and only if the idle time, their
  difference as \<open>crl::time\<close> computes it, is at least \<open>kAutoCloseTimeout\<close>, which is 10
  minutes in milliseconds; below that threshold the firing has no effect beyond the two
  reads. Whenever the difference of the two readings fits into 64 bits, as it does for
  any two non-negative readings, the idle time is that difference.
\<close>

theorem auto_close_timer:
  "callEach (SetupAutoCloseTimer env callback) = kTimerCheck
   \<and> sint kTimerCheck = 60 * 1000
   \<and> sint kAutoCloseTimeout = 10 * 60 * 1000
   \<and> onFire (SetupAutoCloseTimer env callback) now a =
       [Ext Call_now, Ext Call_lastNonIdleTime]
       @ (if sint (now - lastNonIdleTime env a) \<ge> sint kAutoCloseTimeout then callback
          else [])
   \<and> (showBack_fire \<in> set (onFire (SetupAutoCloseTimer env [showBack_fire]) now a)
        \<longleftrightarrow> sint (now - lastNonIdleTime env a) \<ge> 10 * 60 * 1000)
   \<and> (sint (now - lastNonIdleTime env a) < 10 * 60 * 1000 \<longrightarrow>
        onFire (SetupAutoCloseTimer env callback) now a
          = [Ext Call_now, Ext Call_lastNonIdleTime])
   \<and> (- (2 ^ 63) \<le> sint now - sint (lastNonIdleTime env a)
        \<and> sint now - sint (lastNonIdleTime env a) < 2 ^ 63 \<longrightarrow>
        sint (now - lastNonIdleTime env a) = sint now - sint (lastNonIdleTime env a)
        \<and> (showBack_fire \<in> set (onFire (SetupAutoCloseTimer env [showBack_fire]) now a)
             \<longleftrightarrow> sint now - sint (lastNonIdleTime env a) \<ge> 10 * 60 * 1000))
   \<and> (0 \<le> sint now \<and> 0 \<le> sint (lastNonIdleTime env a) \<longrightarrow>
        (showBack_fire \<in> set (onFire (SetupAutoCloseTimer env [showBack_fire]) now a)
             \<longleftrightarrow> sint now - sint (lastNonIdleTime env a) \<ge> 10 * 60 * 1000))"
proof -
  let ?last = "lastNonIdleTime env a"
  have fire: "onFire (SetupAutoCloseTimer env cb) now a =
       [Ext Call_now, Ext Call_lastNonIdleTime]
       @ (if sint (now - ?last) \<ge> sint kAutoCloseTimeout then cb else [])" for cb
    by (simp add: SetupAutoCloseTimer_def timerCallback_def)
  have 1: "callEach (SetupAutoCloseTimer env callback) = kTimerCheck"
    by (simp add: SetupAutoCloseTimer_def)
  have iff: "showBack_fire \<in> set (onFire (SetupAutoCloseTimer env [showBack_fire]) now a)
        \<longleftrightarrow> sint (now - ?last) \<ge> 10 * 60 * 1000"
    by (simp add: fire sint_timer_constants)
  have below: "sint (now - ?last) < 10 * 60 * 1000 \<longrightarrow>
        onFire (SetupAutoCloseTimer env callback) now a
          = [Ext Call_now, Ext Call_lastNonIdleTime]"
    by (simp add: fire sint_timer_constants)
  have fits: "- (2 ^ 63) \<le> sint now - sint ?last \<and> sint now - sint ?last < 2 ^ 63 \<longrightarrow>
        sint (now - ?last) = sint now - sint ?last
        \<and> (showBack_fire \<in> set (onFire (SetupAutoCloseTimer env [showBack_fire]) now a)
             \<longleftrightarrow> sint now - sint ?last \<ge> 10 * 60 * 1000)"
    using iff by (auto simp: sint_diff_64)
  have nonneg: "0 \<le> sint now \<and> 0 \<le> sint ?last \<longrightarrow>
        (showBack_fire \<in> set (onFire (SetupAutoCloseTimer env [showBack_fire]) now a)
             \<longleftrightarrow> sint now - sint ?last \<ge> 10 * 60 * 1000)"
  proof
    assume nn: "0 \<le> sint now \<and> 0 \<le> sint ?last"
    have "sint now < 2 ^ 63" using sint_lt [of now] by simp
    moreover have "sint ?last < 2 ^ 63" using sint_lt [of ?last] by simp
    ultimately have "- (2 ^ 63) \<le> sint now - sint ?last \<and> sint now - sint ?last < 2 ^ 63"
      using nn by simp
    with fits show "showBack_fire \<in> set (onFire (SetupAutoCloseTimer env [showBack_fire]) now a)
             \<longleftrightarrow> sint now - sint ?last \<ge> 10 * 60 * 1000"
      by blast
  qed
  from 1 sint_timer_constants fire [of callback] iff below fits nonneg
  show ?thesis by blast
qed

theorem auto_close_timer_witness:
  "callEach (SetupAutoCloseTimer plainExt [showBack_fire]) = 60000
   \<and> (0 :: int) \<le> sint (600000 :: 64 word)
   \<and> 0 \<le> sint (lastNonIdleTime plainExt (app (plainWorld [] 0 0)))
   \<and> showBack_fire \<in> set (onFire (SetupAutoCloseTimer plainExt [showBack_fire]) 600000
                            (app (plainWorld [] 0 0)))
   \<and> sint ((599999 :: 64 word) - lastNonIdleTime plainExt (app (plainWorld [] 0 0)))
        < 10 * 60 * 1000
   \<and> onFire (SetupAutoCloseTimer plainExt [showBack_fire]) 599999 (app (plainWorld [] 0 0))
       = [Ext Call_now, Ext Call_lastNonIdleTime]
   \<and> showBack_fire \<notin> set (onFire (SetupAutoCloseTimer plainExt [showBack_fire])
                            0x7FFFFFFFFFFFFFFF (app (plainWorld [] 0 0)\<lparr>lastInput := - 1\<rparr>))"
  using
    auto_close_timer [of plainExt "[showBack_fire]" 600000 "app (plainWorld [] 0 0)"]
    auto_close_timer [of plainExt "[showBack_fire]" 599999 "app (plainWorld [] 0 0)"]
    auto_close_timer [of plainExt "[showBack_fire]" "0x7FFFFFFFFFFFFFFF"
      "app (plainWorld [] 0 0)\<lparr>lastInput := - 1\<rparr>"]
  by (simp add: plain_simps kTimerCheck_def)

subsection \<open>C6\<close>

text \<open>
  C6. The disable button of the manage screen shows a confirmation box with the text
  \<open>lng_settings_passcode_disable_sure\<close>. Its \<open>confirmed\<close> callback is \<open>SetPasscode\<close>
  on the empty string, then the closing of the box, then the navigation back:
  the bad-try count is set to zero, the external \<open>setPasscode\<close> receives the empty byte
  string, once, and \<open>showBack\<close> fires last.
\<close>

theorem disable_button_removes_passcode:
  "text_key (disableClicked env) = lng_settings_passcode_disable_sure
   \<and> confirmed (disableClicked env) w =
       (fst (SetPasscode env [] w), snd (SetPasscode env [] w) @ [box_close, showBack_fire])
   \<and> confirmed (disableClicked env) w =
       (w\<lparr>passcodeBadTries := 0,
          app := localPasscodeChanged env (setPasscode env [] (app w))\<rparr>,
        [Ext (Call_cSetPasscodeBadTries 0), Ext (Call_setPasscode []),
         Ext Call_localPasscodeChanged, box_close, showBack_fire])
   \<and> setPasscodeCalls (snd (confirmed (disableClicked env) w)) = [[]]
   \<and> passcodeBadTries (fst (confirmed (disableClicked env) w)) = 0"
  by (simp add: disableClicked_def disableConfirmed_def SetPasscode_eq)

theorem disable_button_removes_passcode_witness:
  "confirmed (disableClicked plainExt) (plainWorld [0x61] 2 7) =
     (plainWorld [] 0 7,
      [Ext (Call_cSetPasscodeBadTries 0), Ext (Call_setPasscode []),
       Ext Call_localPasscodeChanged, box_close, showBack_fire])"
  using disable_button_removes_passcode [of plainExt "plainWorld [0x61] 2 7"]
  by (simp add: SetPasscode_eq plain_simps)

subsection \<open>C7\<close>

text \<open>
  C7. In Check mode, when \<open>passcodeCanTry\<close> returns false the handler shows the flood
  error and returns: \<open>checkPasscode\<close> is not called and the state, with the bad-try
  count and the last-try timestamp, is unchanged.
\<close>

theorem check_mode_rate_limited:
  assumes "\<not> passcodeCanTry env w now"
  shows "clicked env Check newField reenterField now w =
           (w, [Ext Call_passcodeCanTry, setFocus newPasscode, showError newPasscode,
                error_show, error_setText lng_flood_error])
     \<and> checkPasscodeCalls (snd (clicked env Check newField reenterField now w)) = []
     \<and> passcodeBadTries (fst (clicked env Check newField reenterField now w))
          = passcodeBadTries w
     \<and> passcodeLastTry (fst (clicked env Check newField reenterField now w))
          = passcodeLastTry w"
  using assms
  by (simp add: clicked_Check)

theorem check_mode_rate_limited_witness:
  "\<not> passcodeCanTry plainExt (plainWorld [0x61] 3 0) 1000
   \<and> clicked plainExt Check [0x62] [] 1000 (plainWorld [0x61] 3 0) =
        (plainWorld [0x61] 3 0,
         [Ext Call_passcodeCanTry, setFocus newPasscode, showError newPasscode,
          error_show, error_setText lng_flood_error])
   \<and> checkPasscodeCalls (snd (clicked plainExt Check [0x62] [] 1000 (plainWorld [0x61] 3 0)))
        = []"
proof -
  have h: "\<not> passcodeCanTry plainExt (plainWorld [0x61] 3 0) 1000"
    by (simp add: plain_simps)
  show ?thesis
    using h check_mode_rate_limited [OF h, of "[0x62]" "[]"]
    by simp
qed

subsection \<open>C8\<close>

text \<open>
  C8. In Change mode, when the two fields are non-empty and equal and \<open>checkPasscode\<close>
  accepts the entered text, the handler shows the same-passcode error and returns:
  \<open>SetPasscode\<close> is not called and the state, with the stored passcode and the bad-try
  count, is unchanged.
\<close>

theorem change_mode_same_passcode:
  assumes "newField \<noteq> []" and "reenterField = newField"
    and "checkPasscode env (app w) (toUtf8 newField)"
  shows "clicked env Change newField reenterField now w =
           (w, [Ext (Call_checkPasscode (toUtf8 newField)),
                setFocus newPasscode, showError newPasscode, selectAll newPasscode,
                error_show, error_setText lng_passcode_is_same])
     \<and> setPasscodeCalls (snd (clicked env Change newField reenterField now w)) = []"
  using assms
  by (simp add: clicked_Change)

theorem change_mode_same_passcode_witness:
  "[0x61] \<noteq> ([] :: QString)
   \<and> checkPasscode plainExt (app (plainWorld [0x61] 2 7)) (toUtf8 [0x61])
   \<and> clicked plainExt Change [0x61] [0x61] 1000 (plainWorld [0x61] 2 7) =
        (plainWorld [0x61] 2 7,
         [Ext (Call_checkPasscode [0x61]),
          setFocus newPasscode, showError newPasscode, selectAll newPasscode,
          error_show, error_setText lng_passcode_is_same])
   \<and> setPasscodeCalls (snd (clicked plainExt Change [0x61] [0x61] 1000 (plainWorld [0x61] 2 7)))
        = []"
proof -
  have h1: "[0x61] \<noteq> ([] :: QString)" by simp
  have h2: "checkPasscode plainExt (app (plainWorld [0x61] 2 7)) (toUtf8 [0x61])"
    by (simp add: plain_simps del: toUtf8.simps)
  show ?thesis
    using h1 h2 change_mode_same_passcode [OF h1 refl h2, of 1000]
    by (simp add: toUtf8_ascii del: toUtf8.simps)
qed

subsection \<open>C9\<close>

text \<open>
  C9, as amended. With \<open>hours = autolock / 3600\<close> and
  \<open>minutes = (autolock - hours * 3600) / 60\<close> in truncating integer division, the label
  is the combined format when hours and minutes are both non-zero, the minutes-only
  format when hours is zero and minutes is non-zero, and the hours-only format
  otherwise. For a non-negative value hours and minutes are \<open>autolock div 3600\<close> and
  \<open>(autolock mod 3600) div 60\<close>. For every value from 0 to 59 seconds (indeed strictly
  between -60 and 60) the hours-only format is chosen, with hours equal to zero.
\<close>

theorem autolock_label_format:
  "autolock_hours autolock = cpp_div autolock 3600
   \<and> autolock_minutes autolock = cpp_div (autolock - autolock_hours autolock * 3600) 60
   \<and> autolockText autolock =
       (if autolock_hours autolock \<noteq> 0 \<and> autolock_minutes autolock \<noteq> 0 then
          (lng_passcode_autolock_hours_minutes,
           [autolock_hours autolock, autolock_minutes autolock])
        else if autolock_hours autolock = 0 \<and> autolock_minutes autolock \<noteq> 0 then
          (lng_minutes, [autolock_minutes autolock])
        else (lng_hours, [autolock_hours autolock]))
   \<and> (0 \<le> autolock \<longrightarrow>
        autolock_hours autolock = autolock div 3600
        \<and> autolock_minutes autolock = (autolock mod 3600) div 60)
   \<and> (- 60 < autolock \<and> autolock < 60 \<longrightarrow>
        autolock_hours autolock = 0 \<and> autolockText autolock = (lng_hours, [0]))"
proof -
  have 1: "autolock_hours autolock = cpp_div autolock 3600"
    by (simp add: autolock_hours_def)
  have 2: "autolock_minutes autolock = cpp_div (autolock - autolock_hours autolock * 3600) 60"
    by (simp add: autolock_minutes_def)
  have 3: "autolockText autolock =
       (if autolock_hours autolock \<noteq> 0 \<and> autolock_minutes autolock \<noteq> 0 then
          (lng_passcode_autolock_hours_minutes,
           [autolock_hours autolock, autolock_minutes autolock])
        else if autolock_hours autolock = 0 \<and> autolock_minutes autolock \<noteq> 0 then
          (lng_minutes, [autolock_minutes autolock])
        else (lng_hours, [autolock_hours autolock]))"
    by (simp add: autolockText_def Let_def)
  have 4: "0 \<le> autolock \<longrightarrow>
        autolock_hours autolock = autolock div 3600
        \<and> autolock_minutes autolock = (autolock mod 3600) div 60"
    by (simp add: autolock_nonneg)
  have 5: "- 60 < autolock \<and> autolock < 60 \<longrightarrow>
        autolock_hours autolock = 0 \<and> autolockText autolock = (lng_hours, [0])"
    by (simp add: autolockText_def Let_def autolock_small)
  from 1 2 3 4 5 show ?thesis by blast
qed

theorem autolock_label_format_witness:
  "(0 :: int) \<le> 5400
   \<and> autolockText 5400 = (lng_passcode_autolock_hours_minutes, [1, 30])
   \<and> autolockText 300 = (lng_minutes, [5])
   \<and> - 60 < (30 :: int) \<and> (30 :: int) < 60
   \<and> autolock_hours 30 = 0 \<and> autolockText 30 = (lng_hours, [0])"
  using autolock_label_format [of 5400] autolock_label_format [of 300]
    autolock_label_format [of 30]
  by (simp add: cpp_div_def)

text \<open>
  The claim as first stated gives the minutes-only format whenever hours is zero. At 30
  seconds hours and minutes are both zero and the format is the hours-only one.
\<close>

theorem autolock_label_counterexample:
  "autolock_hours 30 = 0 \<and> autolock_minutes 30 = 0
   \<and> autolockText 30 = (lng_hours, [0])
   \<and> autolockText 30 \<noteq> (lng_minutes, [autolock_minutes 30])"
  by (simp add: autolockText_def autolock_30)

subsection \<open>C10\<close>

text \<open>
  C10. In Check mode an empty input gets no validation of its own: while tries are
  available the handler calls \<open>checkPasscode\<close> on the empty byte string, and if the
  check fails the bad-try count is incremented (the 32-bit \<open>+ 1\<close> of the code, exactly one
  more for every count below 2147483647) and the last-try timestamp set. Any other input
  that fails the check leaves the same state and shows the same errors.
\<close>

theorem check_mode_empty_input:
  assumes "passcodeCanTry env w now"
  shows "checkPasscodeCalls (snd (clicked env Check [] reenterField now w)) = [[]]
     \<and> (\<not> checkPasscode env (app w) [] \<longrightarrow>
          clicked env Check [] reenterField now w =
            (w\<lparr>passcodeBadTries := passcodeBadTries w + 1, passcodeLastTry := now\<rparr>,
             [Ext Call_passcodeCanTry, Ext (Call_checkPasscode []),
              Ext Call_cPasscodeBadTries,
              Ext (Call_cSetPasscodeBadTries (passcodeBadTries w + 1)),
              Ext Call_now, Ext (Call_cSetPasscodeLastTry now),
              selectAll newPasscode, setFocus newPasscode, showError newPasscode,
              error_show, error_setText lng_passcode_wrong])
          \<and> (sint (passcodeBadTries w) < 2147483647 \<longrightarrow>
                sint (passcodeBadTries (fst (clicked env Check [] reenterField now w)))
                  = sint (passcodeBadTries w) + 1)
          \<and> (\<forall>other. \<not> checkPasscode env (app w) (toUtf8 other) \<longrightarrow>
                 fst (clicked env Check other reenterField now w)
                   = fst (clicked env Check [] reenterField now w)
               \<and> errorTexts (snd (clicked env Check other reenterField now w))
                   = errorTexts (snd (clicked env Check [] reenterField now w))
               \<and> errorFields (snd (clicked env Check other reenterField now w))
                   = errorFields (snd (clicked env Check [] reenterField now w))))"
  using assms
  by (simp add: clicked_Check sint_succ_32)

theorem check_mode_empty_input_witness:
  "passcodeCanTry plainExt (plainWorld [0x61] 2 7) 1000
   \<and> checkPasscodeCalls (snd (clicked plainExt Check [] [] 1000 (plainWorld [0x61] 2 7))) = [[]]
   \<and> \<not> checkPasscode plainExt (app (plainWorld [0x61] 2 7)) []
   \<and> fst (clicked plainExt Check [] [] 1000 (plainWorld [0x61] 2 7)) = plainWorld [0x61] 3 1000
   \<and> sint (passcodeBadTries (plainWorld [0x61] 2 7)) < 2147483647
   \<and> sint (passcodeBadTries (fst (clicked plainExt Check [] [] 1000 (plainWorld [0x61] 2 7))))
        = 3
   \<and> \<not> checkPasscode plainExt (app (plainWorld [0x61] 2 7)) (toUtf8 [0x62])
   \<and> fst (clicked plainExt Check [0x62] [] 1000 (plainWorld [0x61] 2 7))
        = plainWorld [0x61] 3 1000"
proof -
  have h: "passcodeCanTry plainExt (plainWorld [0x61] 2 7) 1000"
    by (simp add: plain_simps)
  show ?thesis
    using h check_mode_empty_input [OF h, of "[]"]
    by (simp add: plain_simps del: toUtf8.simps)
qed

end
